theory Spec2Isabelle
  imports Complex_Main "HOL-Library.Char_ord" "HOL-Library.List_Lexorder" "HOL-Library.Multiset"
begin

section \<open>Data model\<close>

text \<open>
  One stored expense: the dictionary built by \<^verbatim>\<open>add_expense\<close> (keys id, date, title,
  category, amount, note). The field \<open>id'\<close> is the key \<^verbatim>\<open>"id"\<close> and \<open>note'\<close> the key
  \<^verbatim>\<open>"note"\<close>. A Python \<^verbatim>\<open>str\<close> is the list of the bytes of its UTF-8 form (a lone
  surrogate encoded like any other code point), whose lexicographic order is the order of
  \<^verbatim>\<open>str\<close>, by code points. The type \<open>'n\<close> is the type of Python's floating-point numbers:
  nothing is assumed about it, and its arithmetic is part of the environment below.
\<close>

record 'n expense =
  id' :: int
  date :: string
  title :: string
  category :: string
  amount :: 'n
  note' :: string

text \<open>A \<^verbatim>\<open>datetime.date\<close> value, reduced to its three fields.\<close>

record pydate =
  year :: nat
  month :: nat
  day :: nat

text \<open>
  The exceptions the program can meet. Every \<^verbatim>\<open>ValueError\<close> carries the place that raised
  it: \<open>InvalidDate\<close> is the \<^verbatim>\<open>raise\<close> of \<^verbatim>\<open>parse_date\<close>, \<open>InvalidAmount\<close> is \<^verbatim>\<open>float(...)\<close>,
  \<open>InvalidInt\<close> is \<^verbatim>\<open>int(...)\<close> and \<open>InvalidIso\<close> is \<^verbatim>\<open>datetime.fromisoformat(...)\<close>.
  \<open>UnicodeDecodeError\<close> and \<open>RecursionError\<close> are raised by \<^verbatim>\<open>json.load\<close> on a file that is
  not text in the expected encoding, or that nests too deeply, and \<open>OSError\<close> by \<^verbatim>\<open>open\<close>.
\<close>

datatype value_error = InvalidDate | InvalidAmount | InvalidInt | InvalidIso

datatype exc =
  ValueError value_error | ZeroDivisionError | UnicodeDecodeError | RecursionError | OSError

text \<open>
  What \<^verbatim>\<open>json.load\<close> makes of the content of a file: a value, the exception
  \<^verbatim>\<open>json.JSONDecodeError\<close>, or another exception. A value is either an array of expense
  objects with floating-point amounts (\<open>Records\<close>) or any other JSON value (\<open>NotRecords\<close>,
  with the JSON text of the value).
\<close>

datatype 'n pyval = Records "'n expense list" | NotRecords string

datatype 'n load_result = Parsed "'n pyval" | JSONDecodeError | Raises exc

text \<open>
  The environment of the program: the library functions and built-in operations it calls
  and the clock it reads. They are not part of the repository, so they are parameters of
  the model, and every theorem holds whatever they do. For the parsers a result \<open>None\<close>
  stands for the exception the call raises (\<^verbatim>\<open>ValueError\<close>). The type \<open>'t\<close> is the content of
  a file. The fields are: \<^verbatim>\<open>datetime.strptime(text, fmt).date()\<close>,
  \<^verbatim>\<open>datetime.fromisoformat(text)\<close>, \<^verbatim>\<open>text.strip()\<close>, \<^verbatim>\<open>float(text)\<close>, \<^verbatim>\<open>int(text)\<close>,
  \<^verbatim>\<open>json.load\<close>, \<^verbatim>\<open>json.dump\<close>, \<^verbatim>\<open>datetime.today()\<close>, \<^verbatim>\<open>datetime.now().timestamp()\<close>, an
  integer literal as a floating-point number, \<^verbatim>\<open>x + y\<close>, \<^verbatim>\<open>x * y\<close>, \<^verbatim>\<open>x / y\<close> for a divisor
  that is not zero, the test \<^verbatim>\<open>y == 0\<close> under which a division raises, \<^verbatim>\<open>int(x)\<close> and
  \<^verbatim>\<open>sum(xs)\<close>.
\<close>

record ('t, 'n) env =
  strptime :: "string \<Rightarrow> string \<Rightarrow> pydate option"
  fromisoformat :: "string \<Rightarrow> pydate option"
  strip :: "string \<Rightarrow> string"
  py_float :: "string \<Rightarrow> 'n option"
  py_int :: "string \<Rightarrow> int option"
  json_load :: "'t \<Rightarrow> 'n load_result"
  json_dump :: "'n expense list \<Rightarrow> 't"
  today :: pydate
  now_timestamp :: 'n
  num_int :: "int \<Rightarrow> 'n"
  num_add :: "'n \<Rightarrow> 'n \<Rightarrow> 'n"
  num_mul :: "'n \<Rightarrow> 'n \<Rightarrow> 'n"
  num_div :: "'n \<Rightarrow> 'n \<Rightarrow> 'n"
  num_is_zero :: "'n \<Rightarrow> bool"
  num_trunc :: "'n \<Rightarrow> int"
  py_sum :: "'n list \<Rightarrow> 'n"

text \<open>
  The file system, reduced to the backing file \<^verbatim>\<open>DB_FILE\<close>: the state of the file (\<open>None\<close>
  when \<^verbatim>\<open>os.path.exists\<close> is false) and the number of times it has been written. A file
  that exists either cannot be opened for reading (\<open>Unreadable\<close>: \<^verbatim>\<open>open\<close> raises
  \<^verbatim>\<open>OSError\<close>) or has a content. Opening the file for writing never fails in the model.
\<close>

datatype 't db_state = Unreadable | Content 't

record 't world =
  db_file :: "'t db_state option"
  writes :: nat

text \<open>
  How an operation ends: it returns after printing a report, or an exception leaves it
  (and, with no handler in the menu, the program). The operations are modelled on stores
  whose content is a record array; on any other parsed value Python's dynamic typing
  decides what happens, which the model does not follow: the outcome is then \<open>Unmodelled\<close>
  and says nothing about the program.
\<close>

datatype 'a outcome = Returns 'a | Raised exc | Unmodelled

section \<open>Utility functions\<close>

definition load_data :: "('t, 'n) env \<Rightarrow> 't world \<Rightarrow> exc + 'n pyval" where
  "load_data e w =
     (case db_file w of
        Some Unreadable \<Rightarrow> Inl OSError
      | Some (Content f) \<Rightarrow>
          (case json_load e f of
             Parsed v \<Rightarrow> Inr v
           | JSONDecodeError \<Rightarrow> Inr (Records [])
           | Raises x \<Rightarrow> Inl x)
      | None \<Rightarrow> Inr (Records []))"

definition save_data :: "('t, 'n) env \<Rightarrow> 'n expense list \<Rightarrow> 't world \<Rightarrow> 't world" where
  "save_data e data w = w\<lparr>db_file := Some (Content (json_dump e data)), writes := Suc (writes w)\<rparr>"

text \<open>The loop of \<^verbatim>\<open>parse_date\<close> over its formats; a failing format is skipped.\<close>

fun try_formats :: "('t, 'n) env \<Rightarrow> string \<Rightarrow> string list \<Rightarrow> value_error + pydate" where
  "try_formats e txt [] = Inl InvalidDate"
| "try_formats e txt (fmt # fmts) =
     (case strptime e txt fmt of
        Some d \<Rightarrow> Inr d
      | None \<Rightarrow> try_formats e txt fmts)"

definition date_formats :: "string list" where
  "date_formats = [''%Y-%m-%d'', ''%d-%m-%Y'', ''%Y/%m/%d'']"

definition parse_date :: "('t, 'n) env \<Rightarrow> string \<Rightarrow> value_error + pydate" where
  "parse_date e txt = try_formats e txt date_formats"

subsection \<open>Built-in operations of Python used by the program\<close>

text \<open>\<^verbatim>\<open>str(date)\<close>: the ISO form, year on four digits, month and day on two.\<close>

definition digit_char :: "nat \<Rightarrow> char" where
  "digit_char n = ''0123456789'' ! (n mod 10)"

fun dec :: "nat \<Rightarrow> string" where
  "dec n = (if n < 10 then [digit_char n] else dec (n div 10) @ [digit_char n])"

declare dec.simps [simp del]

definition zfill :: "nat \<Rightarrow> string \<Rightarrow> string" where
  "zfill width s = replicate (width - length s) (CHR ''0'') @ s"

definition str_date :: "pydate \<Rightarrow> string" where
  "str_date d = zfill 4 (dec (year d)) @ ''-'' @ zfill 2 (dec (month d)) @ ''-'' @ zfill 2 (dec (day d))"


text \<open>
  A dictionary with insertion order, as an association list: \<open>dict_get\<close> is
  \<^verbatim>\<open>d.get(k, default)\<close> and \<open>dict_set\<close> is \<^verbatim>\<open>d[k] = v\<close>, which keeps the place of a key
  already present and puts a new key last.
\<close>

fun dict_get :: "('k \<times> 'v) list \<Rightarrow> 'k \<Rightarrow> 'v \<Rightarrow> 'v" where
  "dict_get [] k dflt = dflt"
| "dict_get ((k', v) # d) k dflt = (if k' = k then v else dict_get d k dflt)"

fun dict_set :: "('k \<times> 'v) list \<Rightarrow> 'k \<Rightarrow> 'v \<Rightarrow> ('k \<times> 'v) list" where
  "dict_set [] k v = [(k, v)]"
| "dict_set ((k', v') # d) k v = (if k' = k then (k, v) # d else (k', v') # dict_set d k v)"

section \<open>Core features\<close>

subsection \<open>add_expense\<close>

datatype add_result = InvalidInput value_error | ExpenseAdded

text \<open>
  The five texts are what \<^verbatim>\<open>input\<close> returns for the five prompts, in their order; a text
  is read only when the ones before it were accepted. The handler around the prompts
  catches \<^verbatim>\<open>ValueError\<close> only there: \<^verbatim>\<open>load_data\<close> is called outside it.
\<close>

definition add_expense ::
  "('t, 'n) env \<Rightarrow> string \<Rightarrow> string \<Rightarrow> string \<Rightarrow> string \<Rightarrow> string \<Rightarrow> 't world
     \<Rightarrow> add_result outcome \<times> 't world" where
  "add_expense e date_in title_in category_in amount_in note_in w =
     (let date_text = strip e date_in in
      case (if date_text = [] then Inr (today e) else parse_date e date_text) of
        Inl err \<Rightarrow> (Returns (InvalidInput err), w)
      | Inr d \<Rightarrow>
          (let title_text = strip e title_in;
               category_text = (if strip e category_in = [] then ''Other'' else strip e category_in)
           in case py_float e (strip e amount_in) of
                None \<Rightarrow> (Returns (InvalidInput InvalidAmount), w)
              | Some amount_val \<Rightarrow>
                  (let note_text = strip e note_in;
                       rec = \<lparr>id' = num_trunc e (num_mul e (now_timestamp e) (num_int e 1000)),
                              date = str_date d,
                              title = title_text,
                              category = category_text,
                              amount = amount_val,
                              note' = note_text\<rparr>
                   in case load_data e w of
                        Inl x \<Rightarrow> (Raised x, w)
                      | Inr (NotRecords v) \<Rightarrow> (Unmodelled, w)
                      | Inr (Records data) \<Rightarrow>
                          (Returns ExpenseAdded, save_data e (data @ [rec]) w))))"

subsection \<open>view_all\<close>



subsection \<open>monthly_summary\<close>

text \<open>
  The comprehension that selects the records of the month: \<^verbatim>\<open>fromisoformat\<close> is applied to
  the date of every record, in order, and the first date it rejects aborts the operation.
\<close>

fun filter_month ::
  "('t, 'n) env \<Rightarrow> int \<Rightarrow> int \<Rightarrow> 'n expense list \<Rightarrow> exc + 'n expense list" where
  "filter_month e y m [] = Inr []"
| "filter_month e y m (r # rs) =
     (case fromisoformat e (date r) of
        None \<Rightarrow> Inl (ValueError InvalidIso)
      | Some d \<Rightarrow>
          (case filter_month e y m rs of
             Inl err \<Rightarrow> Inl err
           | Inr fs \<Rightarrow> Inr (if int (year d) = y \<and> int (month d) = m then r # fs else fs)))"

definition by_category :: "('t, 'n) env \<Rightarrow> 'n expense list \<Rightarrow> (string \<times> 'n) list" where
  "by_category e filtered =
     foldl (\<lambda>by_cat r. dict_set by_cat (category r)
                         (num_add e (dict_get by_cat (category r) (num_int e 0)) (amount r)))
       [] filtered"

text \<open>
  The loop that prints one line for each category: name, subtotal and the percentage
  \<^verbatim>\<open>amt/total*100\<close>, where the division raises when the total is zero.
\<close>

fun percent_lines ::
  "('t, 'n) env \<Rightarrow> 'n \<Rightarrow> (string \<times> 'n) list \<Rightarrow> exc + (string \<times> 'n \<times> 'n) list" where
  "percent_lines e tot [] = Inr []"
| "percent_lines e tot ((cat, amt) # items) =
     (if num_is_zero e tot then Inl ZeroDivisionError
      else (case percent_lines e tot items of
              Inl err \<Rightarrow> Inl err
            | Inr ls \<Rightarrow> Inr ((cat, amt, num_mul e (num_div e amt tot) (num_int e 100)) # ls)))"

datatype 'n summary_result = NoRecords | Summary int int "(string \<times> 'n \<times> 'n) list" 'n

text \<open>\<^verbatim>\<open>int(s) if s else dflt\<close>, for the year and the month.\<close>

definition int_or_default :: "('t, 'n) env \<Rightarrow> string \<Rightarrow> nat \<Rightarrow> exc + int" where
  "int_or_default e s dflt =
     (if s \<noteq> [] then (case py_int e s of None \<Rightarrow> Inl (ValueError InvalidInt) | Some n \<Rightarrow> Inr n)
      else Inr (int dflt))"

definition monthly_summary ::
  "('t, 'n) env \<Rightarrow> string \<Rightarrow> string \<Rightarrow> 't world \<Rightarrow> 'n summary_result outcome \<times> 't world" where
  "monthly_summary e y_in m_in w =
     (let y = strip e y_in; m = strip e m_in in
      case int_or_default e y (year (today e)) of
        Inl err \<Rightarrow> (Raised err, w)
      | Inr year_val \<Rightarrow>
         (case int_or_default e m (month (today e)) of
            Inl err \<Rightarrow> (Raised err, w)
          | Inr month_val \<Rightarrow>
             (case load_data e w of
                Inl x \<Rightarrow> (Raised x, w)
              | Inr (NotRecords v) \<Rightarrow> (Unmodelled, w)
              | Inr (Records data) \<Rightarrow>
                 (case filter_month e year_val month_val data of
                    Inl err \<Rightarrow> (Raised err, w)
                  | Inr filtered \<Rightarrow>
                     if filtered = [] then (Returns NoRecords, w)
                     else (let tot = py_sum e (map amount filtered);
                               by_cat = by_category e filtered
                           in case percent_lines e tot by_cat of
                                Inl err \<Rightarrow> (Raised err, w)
                              | Inr ls \<Rightarrow> (Returns (Summary year_val month_val ls tot), w))))))"

subsection \<open>delete\<close>

datatype delete_result = InvalidID | IDNotFound | Deleted

definition delete ::
  "('t, 'n) env \<Rightarrow> string \<Rightarrow> 't world \<Rightarrow> delete_result outcome \<times> 't world" where
  "delete e id_in w =
     (case py_int e (strip e id_in) of
        None \<Rightarrow> (Returns InvalidID, w)
      | Some id_num \<Rightarrow>
          (case load_data e w of
             Inl x \<Rightarrow> (Raised x, w)
           | Inr (NotRecords v) \<Rightarrow> (Unmodelled, w)
           | Inr (Records data) \<Rightarrow>
               (let new_data = filter (\<lambda>r. id' r \<noteq> id_num) data
                in if length new_data = length data then (Returns IDNotFound, w)
                   else (Returns Deleted, save_data e new_data w))))"

section \<open>A reference environment\<close>

text \<open>
  One concrete environment, on which the statements below are run: \<^verbatim>\<open>strip\<close> for ASCII
  text, parsers for the zero-padded forms of the three date formats, for ISO dates, for
  decimal numbers and for integers, a fixed clock, numbers as rationals with exact
  arithmetic (which agrees with floating-point arithmetic on the values of the examples),
  and file contents described by what \<^verbatim>\<open>json.load\<close> makes of them. The theorems hold for
  every environment; this one shows that their hypotheses can be met.
\<close>

definition ref_isspace :: "char \<Rightarrow> bool" where
  "ref_isspace c = (let n = (of_char c :: nat) in (9 \<le> n \<and> n \<le> 13) \<or> (28 \<le> n \<and> n \<le> 32))"

definition ref_strip :: "string \<Rightarrow> string" where
  "ref_strip s = rev (dropWhile ref_isspace (rev (dropWhile ref_isspace s)))"

definition ref_trunc :: "rat \<Rightarrow> int" where
  "ref_trunc x = (if 0 \<le> x then \<lfloor>x\<rfloor> else \<lceil>x\<rceil>)"

definition digit_of :: "char \<Rightarrow> nat option" where
  "digit_of c =
     (let n = (of_char c :: nat) in if 48 \<le> n \<and> n \<le> 57 then Some (n - 48) else None)"

fun digits_val :: "string \<Rightarrow> nat \<Rightarrow> nat option" where
  "digits_val [] acc = Some acc"
| "digits_val (c # cs) acc =
     (case digit_of c of None \<Rightarrow> None | Some d \<Rightarrow> digits_val cs (10 * acc + d))"

definition nat_of_string :: "string \<Rightarrow> nat option" where
  "nat_of_string s = (if s = [] then None else digits_val s 0)"

definition leap_year :: "nat \<Rightarrow> bool" where
  "leap_year y = (y mod 4 = 0 \<and> (y mod 100 \<noteq> 0 \<or> y mod 400 = 0))"

definition days_in_month :: "nat \<Rightarrow> nat \<Rightarrow> nat" where
  "days_in_month y m =
     (if m = 2 then (if leap_year y then 29 else 28)
      else if m = 4 \<or> m = 6 \<or> m = 9 \<or> m = 11 then 30 else 31)"

definition mk_date :: "nat option \<Rightarrow> nat option \<Rightarrow> nat option \<Rightarrow> pydate option" where
  "mk_date yo mo dd =
     (case yo of None \<Rightarrow> None | Some y \<Rightarrow>
       (case mo of None \<Rightarrow> None | Some m \<Rightarrow>
         (case dd of None \<Rightarrow> None | Some d \<Rightarrow>
            (if 1 \<le> y \<and> y \<le> 9999 \<and> 1 \<le> m \<and> m \<le> 12 \<and> 1 \<le> d \<and> d \<le> days_in_month y m
             then Some \<lparr>year = y, month = m, day = d\<rparr> else None))))"

fun ref_strptime :: "string \<Rightarrow> string \<Rightarrow> pydate option" where
  "ref_strptime [y1, y2, y3, y4, s1, m1, m2, s2, d1, d2] fmt =
     (if fmt = ''%Y-%m-%d'' \<and> s1 = CHR ''-'' \<and> s2 = CHR ''-''
         \<or> fmt = ''%Y/%m/%d'' \<and> s1 = CHR ''/'' \<and> s2 = CHR ''/''
      then mk_date (nat_of_string [y1, y2, y3, y4]) (nat_of_string [m1, m2]) (nat_of_string [d1, d2])
      else if fmt = ''%d-%m-%Y'' \<and> y3 = CHR ''-'' \<and> m1 = CHR ''-''
      then mk_date (nat_of_string [m2, s2, d1, d2]) (nat_of_string [y4, s1]) (nat_of_string [y1, y2])
      else None)"
| "ref_strptime txt fmt = None"

definition ref_fromisoformat :: "string \<Rightarrow> pydate option" where
  "ref_fromisoformat s = ref_strptime s ''%Y-%m-%d''"

definition ref_int :: "string \<Rightarrow> int option" where
  "ref_int s =
     (case s of
        [] \<Rightarrow> None
      | c # cs \<Rightarrow>
          if c = CHR ''-'' then map_option (\<lambda>n. - int n) (nat_of_string cs)
          else map_option int (nat_of_string s))"

definition ref_float :: "string \<Rightarrow> rat option" where
  "ref_float s =
     (let ip = takeWhile (\<lambda>c. c \<noteq> CHR ''.'') s;
          fp = drop 1 (dropWhile (\<lambda>c. c \<noteq> CHR ''.'') s)
      in case ref_int ip of
           None \<Rightarrow> None
         | Some i \<Rightarrow>
             if fp = [] then Some (of_int i)
             else (case nat_of_string fp of
                     None \<Rightarrow> None
                   | Some f \<Rightarrow>
                       Some (if hd ip = CHR ''-''
                             then of_int i - of_nat f / 10 ^ length fp
                             else of_int i + of_nat f / 10 ^ length fp)))"

text \<open>
  The content of a file: text that is not JSON, bytes that are not text in the encoding of
  the platform, the JSON text of a record array (given by the array), or the JSON text of
  another value (given as text).
\<close>

datatype json_text = NotJson string | BadBytes | JsonArray "rat expense list" | JsonValue string

definition ref_json_load :: "json_text \<Rightarrow> rat load_result" where
  "ref_json_load f =
     (case f of
        NotJson s \<Rightarrow> JSONDecodeError
      | BadBytes \<Rightarrow> Raises UnicodeDecodeError
      | JsonArray data \<Rightarrow> Parsed (Records data)
      | JsonValue s \<Rightarrow> Parsed (NotRecords s))"

definition ref_env :: "(json_text, rat) env" where
  "ref_env =
     \<lparr>strptime = ref_strptime,
      fromisoformat = ref_fromisoformat,
      strip = ref_strip,
      py_float = ref_float,
      py_int = ref_int,
      json_load = ref_json_load,
      json_dump = JsonArray,
      today = \<lparr>year = 2024, month = 3, day = 9\<rparr>,
      now_timestamp = 1709985600125 / 1000,
      num_int = of_int,
      num_add = (+),
      num_mul = (*),
      num_div = (/),
      num_is_zero = (\<lambda>x. x = 0),
      num_trunc = ref_trunc,
      py_sum = sum_list\<rparr>"

text \<open>The three records of the examples.\<close>

definition rec1 :: "rat expense" where
  "rec1 = \<lparr>id' = 1, date = ''2024-01-05'', title = ''Lunch'', category = ''Food'',
           amount = 10, note' = ''''\<rparr>"

definition rec2 :: "rat expense" where
  "rec2 = \<lparr>id' = 2, date = ''2024-01-20'', title = ''Dinner'', category = ''Food'',
           amount = 20, note' = ''''\<rparr>"

definition rec3 :: "rat expense" where
  "rec3 = \<lparr>id' = 3, date = ''2024-02-01'', title = ''Bus'', category = ''Transport'',
           amount = 5, note' = ''''\<rparr>"

definition example_world :: "json_text world" where
  "example_world = \<lparr>db_file = Some (Content (JsonArray [rec1, rec2, rec3])), writes = 0\<rparr>"

text \<open>Further stores used in the examples.\<close>

definition zero_world :: "json_text world" where
  "zero_world =
     \<lparr>db_file = Some (Content (JsonArray
        [\<lparr>id' = 4, date = ''2024-03-02'', title = ''Refund'', category = ''Misc'',
          amount = 0, note' = ''''\<rparr>])),
      writes = 0\<rparr>"

definition bad_date_world :: "json_text world" where
  "bad_date_world =
     \<lparr>db_file = Some (Content (JsonArray
        [rec1, \<lparr>id' = 5, date = ''05/01/2024'', title = ''Taxi'', category = ''Transport'',
                amount = 7, note' = ''''\<rparr>])),
      writes = 0\<rparr>"


section \<open>Notions used to state the properties\<close>

text \<open>
  These follow the wording of the specification, not the code. \<open>first_seen xs\<close> lists the
  elements of \<open>xs\<close> without repetition, in the order of their first occurrence;
  \<open>in_month\<close> says that the stored date of a record falls in a year and month;
  \<open>total_of e xs\<close> adds the numbers \<open>xs\<close> to 0 from left to right with the addition of the
  program; \<open>subtotal e rs c\<close> is that sum for the amounts of the records of category \<open>c\<close>.
\<close>

primrec first_seen :: "'a list \<Rightarrow> 'a list" where
  "first_seen [] = []"
| "first_seen (x # xs) = x # removeAll x (first_seen xs)"

definition in_month :: "('t, 'n) env \<Rightarrow> int \<Rightarrow> int \<Rightarrow> 'n expense \<Rightarrow> bool" where
  "in_month e y m r =
     (case fromisoformat e (date r) of
        None \<Rightarrow> False
      | Some d \<Rightarrow> int (year d) = y \<and> int (month d) = m)"

definition total_of :: "('t, 'n) env \<Rightarrow> 'n list \<Rightarrow> 'n" where
  "total_of e xs = foldl (num_add e) (num_int e 0) xs"

definition subtotal :: "('t, 'n) env \<Rightarrow> 'n expense list \<Rightarrow> string \<Rightarrow> 'n" where
  "subtotal e rs c = total_of e (map amount (filter (\<lambda>r. category r = c) rs))"

section \<open>The store\<close>

lemma load_example:
  "load_data ref_env example_world = Inr (Records [rec1, rec2, rec3])"
  by (simp add: load_data_def ref_env_def ref_json_load_def example_world_def)

lemma load_absent:
  "load_data ref_env \<lparr>db_file = None, writes = 0\<rparr> = Inr (Records [])"
  by (simp add: load_data_def)

text \<open>
  C5, as amended. \<open>load_data\<close> returns the empty collection when the file is absent and
  when \<^verbatim>\<open>json.load\<close> raises \<^verbatim>\<open>json.JSONDecodeError\<close> on its content; when \<^verbatim>\<open>json.load\<close>
  returns a value, \<open>load_data\<close> returns that value, whatever its shape. These are the only
  ways in which it returns. It fails exactly when the file exists and cannot be opened
  (\<^verbatim>\<open>OSError\<close>) or \<^verbatim>\<open>json.load\<close> raises another exception, which it lets through.
\<close>

theorem load_data_outcomes:
  "(load_data e w = Inl x \<longleftrightarrow>
      db_file w = Some Unreadable \<and> x = OSError
      \<or> (\<exists>f. db_file w = Some (Content f) \<and> json_load e f = Raises x))
   \<and> (load_data e w = Inr v \<longleftrightarrow>
        v = Records [] \<and> (db_file w = None
                           \<or> (\<exists>f. db_file w = Some (Content f) \<and> json_load e f = JSONDecodeError))
        \<or> (\<exists>f. db_file w = Some (Content f) \<and> json_load e f = Parsed v))"
  by (auto simp: load_data_def split: option.splits db_state.splits load_result.splits)

text \<open>An absent file, a file that is not JSON, and the file of the three example records.\<close>

theorem load_data_outcomes_witness:
  "load_data ref_env \<lparr>db_file = None, writes = 0\<rparr> = Inr (Records [])
   \<and> json_load ref_env (NotJson ''[{'') = JSONDecodeError
   \<and> load_data ref_env \<lparr>db_file = Some (Content (NotJson ''[{'')), writes = 0\<rparr> = Inr (Records [])
   \<and> json_load ref_env (JsonArray [rec1, rec2, rec3]) = Parsed (Records [rec1, rec2, rec3])
   \<and> load_data ref_env example_world = Inr (Records [rec1, rec2, rec3])"
proof -
  have j: "json_load ref_env (NotJson ''[{'') = JSONDecodeError"
    "json_load ref_env (JsonArray [rec1, rec2, rec3]) = Parsed (Records [rec1, rec2, rec3])"
    by (simp_all add: ref_env_def ref_json_load_def)
  have a: "load_data ref_env \<lparr>db_file = None, writes = 0\<rparr> = Inr (Records [])"
    using load_data_outcomes [of ref_env "\<lparr>db_file = None, writes = 0\<rparr>" _ "Records []"]
    by simp
  have b: "load_data ref_env \<lparr>db_file = Some (Content (NotJson ''[{'')), writes = 0\<rparr>
             = Inr (Records [])"
    using load_data_outcomes
      [of ref_env "\<lparr>db_file = Some (Content (NotJson ''[{'')), writes = 0\<rparr>" _ "Records []"] j(1)
    by simp
  have c: "load_data ref_env example_world = Inr (Records [rec1, rec2, rec3])"
    using load_data_outcomes [of ref_env example_world _ "Records [rec1, rec2, rec3]"] j(2)
    by (simp add: example_world_def)
  from a b c j show ?thesis by simp
qed

text \<open>
  C5 as first stated does not hold for every state of the file: on a file whose bytes are
  not text in the encoding of the platform \<^verbatim>\<open>json.load\<close> raises \<^verbatim>\<open>UnicodeDecodeError\<close>, which
  is not a \<^verbatim>\<open>JSONDecodeError\<close> and leaves \<open>load_data\<close>; a file that exists and cannot be
  opened gives \<^verbatim>\<open>OSError\<close>; and on the JSON text \<^verbatim>\<open>5\<close>, which is not a record array,
  \<open>load_data\<close> returns the number and not the empty collection.
\<close>

theorem load_data_counterexample:
  "json_load ref_env BadBytes = Raises UnicodeDecodeError
   \<and> load_data ref_env \<lparr>db_file = Some (Content BadBytes), writes = 0\<rparr> = Inl UnicodeDecodeError
   \<and> load_data ref_env \<lparr>db_file = Some Unreadable, writes = 0\<rparr> = Inl OSError
   \<and> json_load ref_env (JsonValue ''5'') = Parsed (NotRecords ''5'')
   \<and> load_data ref_env \<lparr>db_file = Some (Content (JsonValue ''5'')), writes = 0\<rparr>
       = Inr (NotRecords ''5'')"
  by (simp add: load_data_def ref_env_def ref_json_load_def)

section \<open>Auxiliary facts\<close>

lemmas ref_simps = ref_env_def ref_json_load_def load_data_def
  int_or_default_def ref_strip_def ref_isspace_def ref_int_def nat_of_string_def digit_of_def
  ref_fromisoformat_def mk_date_def days_in_month_def leap_year_def in_month_def subtotal_def
  total_of_def

lemma set_first_seen: "set (first_seen xs) = set xs"
  by (induction xs) auto

lemma distinct_first_seen: "distinct (first_seen xs)"
  by (induction xs) (auto simp: distinct_removeAll)

lemma first_seen_filter: "first_seen (filter P xs) = filter P (first_seen xs)"
proof (induction xs)
  case Nil
  then show ?case by simp
next
  case (Cons x xs)
  have comm: "removeAll x (filter P ys) = filter P (removeAll x ys)" for ys
    by (induction ys) auto
  show ?case
  proof (cases "P x")
    case True
    then show ?thesis using Cons comm by simp
  next
    case False
    then have "x \<notin> set (filter P (first_seen xs))" by (simp add: set_first_seen)
    then have "removeAll x (filter P (first_seen xs)) = filter P (first_seen xs)" by simp
    then show ?thesis using Cons False comm by simp
  qed
qed

lemma keys_dict_set:
  "map fst (dict_set d k v) = (if k \<in> set (map fst d) then map fst d else map fst d @ [k])"
  by (induction d) force+

lemma dict_get_dict_set:
  "dict_get (dict_set d k v) k' dflt = (if k' = k then v else dict_get d k' dflt)"
  by (induction d) auto

lemma dict_get_entry:
  "distinct (map fst d) \<Longrightarrow> (k, v) \<in> set d \<Longrightarrow> dict_get d k dflt = v"
  by (induction d) (auto simp: rev_image_eqI)

lemma dict_repr:
  assumes "distinct (map fst d)"
  shows "map (\<lambda>k. (k, dict_get d k dflt)) (map fst d) = d"
proof -
  have "map ((\<lambda>k. (k, dict_get d k dflt)) \<circ> fst) d = d"
    by (rule map_idI) (auto simp: dict_get_entry [OF assms])
  then show ?thesis by simp
qed

lemma keys_foldl:
  "map fst (foldl (\<lambda>by_cat r. dict_set by_cat (category r) (f by_cat r)) acc rs)
   = map fst acc @ first_seen (filter (\<lambda>c. c \<notin> set (map fst acc)) (map category rs))"
proof (induction rs arbitrary: acc)
  case Nil
  then show ?case by simp
next
  case (Cons r rs)
  let ?c = "category r"
  let ?acc = "dict_set acc ?c (f acc r)"
  show ?case
  proof (cases "?c \<in> set (map fst acc)")
    case True
    then have "map fst ?acc = map fst acc" by (simp add: keys_dict_set)
    then show ?thesis using Cons [of ?acc] True by simp
  next
    case False
    then have k: "map fst ?acc = map fst acc @ [?c]" by (simp add: keys_dict_set)
    have "filter (\<lambda>c. c \<notin> set (map fst ?acc)) (map category rs)
          = filter (\<lambda>c. ?c \<noteq> c) (filter (\<lambda>c. c \<notin> set (map fst acc)) (map category rs))"
      unfolding k by (auto intro: filter_cong)
    then have "first_seen (filter (\<lambda>c. c \<notin> set (map fst ?acc)) (map category rs))
          = removeAll ?c (first_seen (filter (\<lambda>c. c \<notin> set (map fst acc)) (map category rs)))"
      by (simp only: first_seen_filter removeAll_filter_not_eq)
    then show ?thesis using Cons [of ?acc] False k by simp
  qed
qed

lemma get_foldl:
  "dict_get (foldl (\<lambda>by_cat r. dict_set by_cat (category r)
                     (num_add e (dict_get by_cat (category r) z) (amount r))) acc rs) c z
   = foldl (num_add e) (dict_get acc c z) (map amount (filter (\<lambda>r. category r = c) rs))"
  by (induction rs arbitrary: acc) (simp_all add: dict_get_dict_set)

lemma by_category_keys: "map fst (by_category e rs) = first_seen (map category rs)"
  by (simp add: by_category_def keys_foldl)

lemma by_category_get: "dict_get (by_category e rs) c (num_int e 0) = subtotal e rs c"
  by (simp add: by_category_def get_foldl subtotal_def total_of_def)

lemma by_category_eq:
  "by_category e rs = map (\<lambda>c. (c, subtotal e rs c)) (first_seen (map category rs))"
proof -
  have "distinct (map fst (by_category e rs))"
    by (simp add: by_category_keys distinct_first_seen)
  from dict_repr [OF this, of "num_int e 0"] show ?thesis
    by (simp add: by_category_keys by_category_get)
qed

lemma by_category_nonempty: "rs \<noteq> [] \<Longrightarrow> by_category e rs \<noteq> []"
proof -
  assume "rs \<noteq> []"
  then have "first_seen (map category rs) \<noteq> []" by (cases rs) auto
  then show ?thesis by (simp add: by_category_eq)
qed

lemma filter_month_valid:
  "\<forall>r\<in>set rs. fromisoformat e (date r) \<noteq> None \<Longrightarrow>
   filter_month e y m rs = Inr (filter (in_month e y m) rs)"
  by (induction rs) (auto simp: in_month_def)

lemma filter_month_invalid:
  "\<exists>r\<in>set rs. fromisoformat e (date r) = None \<Longrightarrow>
   filter_month e y m rs = Inl (ValueError InvalidIso)"
  by (induction rs) (fastforce split: option.splits sum.splits)+

lemma percent_lines_nonzero:
  "\<not> num_is_zero e tot \<Longrightarrow>
   percent_lines e tot items
     = Inr (map (\<lambda>(c, a). (c, a, num_mul e (num_div e a tot) (num_int e 100))) items)"
  by (induction items) auto

lemma percent_lines_zero:
  "items \<noteq> [] \<Longrightarrow> num_is_zero e tot \<Longrightarrow> percent_lines e tot items = Inl ZeroDivisionError"
  by (cases items) auto

section \<open>Adding an expense\<close>

lemma parse_date_unfold:
  "parse_date e t =
     (case strptime e t ''%Y-%m-%d'' of
        Some d \<Rightarrow> Inr d
      | None \<Rightarrow>
          (case strptime e t ''%d-%m-%Y'' of
             Some d \<Rightarrow> Inr d
           | None \<Rightarrow>
               (case strptime e t ''%Y/%m/%d'' of
                  Some d \<Rightarrow> Inr d
                | None \<Rightarrow> Inl InvalidDate)))"
  by (simp add: parse_date_def date_formats_def split: option.splits)

lemma parse_date_Inl:
  "parse_date e t = Inl err \<longleftrightarrow>
     err = InvalidDate \<and> strptime e t ''%Y-%m-%d'' = None \<and> strptime e t ''%d-%m-%Y'' = None
       \<and> strptime e t ''%Y/%m/%d'' = None"
  by (auto simp: parse_date_unfold split: option.splits)

lemma add_expense_bad_date:
  "strip e date_in \<noteq> [] \<Longrightarrow> parse_date e (strip e date_in) = Inl err \<Longrightarrow>
   add_expense e date_in title_in category_in amount_in note_in w
     = (Returns (InvalidInput err), w)"
  by (simp add: add_expense_def Let_def)

lemma add_expense_bad_amount:
  "strip e date_in = [] \<or> parse_date e (strip e date_in) = Inr d \<Longrightarrow>
   py_float e (strip e amount_in) = None \<Longrightarrow>
   add_expense e date_in title_in category_in amount_in note_in w
     = (Returns (InvalidInput InvalidAmount), w)"
  by (auto simp: add_expense_def Let_def)

lemma add_expense_accepted:
  "strip e date_in = [] \<or> parse_date e (strip e date_in) = Inr d \<Longrightarrow>
   py_float e (strip e amount_in) = Some a \<Longrightarrow>
   fst (add_expense e date_in title_in category_in amount_in note_in w) \<noteq> Returns (InvalidInput err)"
  by (auto simp: add_expense_def Let_def split: sum.splits pyval.splits)

lemma add_expense_ok:
  "load_data e w = Inr (Records data) \<Longrightarrow>
   strip e date_in = [] \<and> d = today e
     \<or> strip e date_in \<noteq> [] \<and> parse_date e (strip e date_in) = Inr d \<Longrightarrow>
   py_float e (strip e amount_in) = Some a \<Longrightarrow>
   add_expense e date_in title_in category_in amount_in note_in w =
     (Returns ExpenseAdded,
      save_data e
        (data @
          [\<lparr>id' = num_trunc e (num_mul e (now_timestamp e) (num_int e 1000)),
            date = str_date d,
            title = strip e title_in,
            category = (if strip e category_in = [] then ''Other'' else strip e category_in),
            amount = a,
            note' = strip e note_in\<rparr>]) w)"
  by (auto simp: add_expense_def Let_def)

text \<open>
  C1. On a store that holds a record array, with a date text that is blank (the date is
  then today) or that \<open>parse_date\<close> accepts, and an amount text that \<^verbatim>\<open>float\<close> accepts,
  \<open>add_expense\<close> saves the collection with exactly one record added at its end: the size
  grows by one, and the record has the date in ISO form, the stripped title, the stripped
  category or \<^verbatim>\<open>Other\<close> when that is blank, the number read from the amount text, the
  stripped note, and as id the integer part of the clock's time multiplied by 1000. The
  file is written once, with \<^verbatim>\<open>json.dump\<close> of the whole collection, and when \<^verbatim>\<open>json.load\<close>
  reads that text back the next load returns the extended collection.
\<close>

theorem add_expense_appends:
  assumes "load_data e w = Inr (Records data)"
    and "strip e date_in = [] \<and> d = today e
     \<or> strip e date_in \<noteq> [] \<and> parse_date e (strip e date_in) = Inr d"
    and "py_float e (strip e amount_in) = Some a"
  shows
    "(let rec = \<lparr>id' = num_trunc e (num_mul e (now_timestamp e) (num_int e 1000)),
                 date = str_date d,
                 title = strip e title_in,
                 category = (if strip e category_in = [] then ''Other'' else strip e category_in),
                 amount = a,
                 note' = strip e note_in\<rparr>;
          res = add_expense e date_in title_in category_in amount_in note_in w
      in res = (Returns ExpenseAdded, save_data e (data @ [rec]) w)
         \<and> db_file (snd res) = Some (Content (json_dump e (data @ [rec])))
         \<and> writes (snd res) = Suc (writes w)
         \<and> length (data @ [rec]) = Suc (length data)
         \<and> (json_load e (json_dump e (data @ [rec])) = Parsed (Records (data @ [rec]))
              \<longrightarrow> load_data e (snd res) = Inr (Records (data @ [rec]))))"
  using add_expense_ok [OF assms, of title_in category_in note_in]
  by (simp add: Let_def save_data_def load_data_def)

theorem add_expense_appends_witness:
  "load_data ref_env example_world = Inr (Records [rec1, rec2, rec3])
   \<and> strip ref_env '' 15-02-2024'' \<noteq> []
   \<and> parse_date ref_env (strip ref_env '' 15-02-2024'') = Inr \<lparr>year = 2024, month = 2, day = 15\<rparr>
   \<and> py_float ref_env (strip ref_env ''2.5'') = Some (5 / 2)
   \<and> add_expense ref_env '' 15-02-2024'' ''Tea '' '''' ''2.5'' ''x'' example_world
       = (Returns ExpenseAdded,
          \<lparr>db_file = Some (Content (JsonArray [rec1, rec2, rec3,
               \<lparr>id' = 1709985600125, date = ''2024-02-15'', title = ''Tea'', category = ''Other'',
                amount = 5 / 2, note' = ''x''\<rparr>])),
           writes = 1\<rparr>)
   \<and> load_data ref_env \<lparr>db_file = None, writes = 0\<rparr> = Inr (Records [])
   \<and> strip ref_env ''  '' = []
   \<and> add_expense ref_env ''  '' ''Rent'' ''Home'' ''700'' '''' \<lparr>db_file = None, writes = 0\<rparr>
       = (Returns ExpenseAdded,
          \<lparr>db_file = Some (Content (JsonArray
               [\<lparr>id' = 1709985600125, date = ''2024-03-09'', title = ''Rent'', category = ''Home'',
                 amount = 700, note' = ''''\<rparr>])),
           writes = 1\<rparr>)"
proof -
  have st: "strip ref_env '' 15-02-2024'' = ''15-02-2024''" "strip ref_env ''  '' = []"
    "strip ref_env ''Tea '' = ''Tea''" "strip ref_env '''' = ''''" "strip ref_env ''x'' = ''x''"
    "strip ref_env ''Rent'' = ''Rent''" "strip ref_env ''Home'' = ''Home''"
    "strip ref_env ''2.5'' = ''2.5''" "strip ref_env ''700'' = ''700''"
    by (simp_all add: ref_env_def ref_strip_def ref_isspace_def)
  have p: "parse_date ref_env ''15-02-2024'' = Inr \<lparr>year = 2024, month = 2, day = 15\<rparr>"
    by (simp add: parse_date_unfold ref_env_def mk_date_def nat_of_string_def digit_of_def
        days_in_month_def)
  have f1: "py_float ref_env ''2.5'' = Some (5 / 2)"
    and f2: "py_float ref_env ''700'' = Some 700"
    by (simp_all add: ref_env_def ref_float_def ref_int_def nat_of_string_def digit_of_def)
  have d1: "str_date \<lparr>year = 2024, month = 2, day = 15\<rparr> = ''2024-02-15''"
    and d2: "str_date (today ref_env) = ''2024-03-09''"
    by (simp_all add: ref_env_def str_date_def zfill_def dec.simps digit_char_def)
  have t: "num_trunc ref_env (num_mul ref_env (now_timestamp ref_env) (num_int ref_env 1000))
             = 1709985600125"
    by (simp add: ref_env_def ref_trunc_def)
  have sv1: "save_data ref_env xs example_world = \<lparr>db_file = Some (Content (JsonArray xs)), writes = 1\<rparr>"
    and sv2: "save_data ref_env xs \<lparr>db_file = None, writes = 0\<rparr>
                = \<lparr>db_file = Some (Content (JsonArray xs)), writes = 1\<rparr>" for xs
    by (simp_all add: save_data_def ref_env_def example_world_def)
  have a1: "strip ref_env '' 15-02-2024'' = [] \<and> \<lparr>year = 2024, month = 2, day = 15\<rparr> = today ref_env
     \<or> strip ref_env '' 15-02-2024'' \<noteq> []
        \<and> parse_date ref_env (strip ref_env '' 15-02-2024'')
            = Inr \<lparr>year = 2024, month = 2, day = 15\<rparr>"
    using p by (simp add: st)
  have a2: "strip ref_env ''  '' = [] \<and> today ref_env = today ref_env
     \<or> strip ref_env ''  '' \<noteq> [] \<and> parse_date ref_env (strip ref_env ''  '') = Inr (today ref_env)"
    by (simp add: st)
  have b1: "py_float ref_env (strip ref_env ''2.5'') = Some (5 / 2)"
    and b2: "py_float ref_env (strip ref_env ''700'') = Some 700"
    using f1 f2 by (simp_all add: st)
  show ?thesis
    using add_expense_appends [OF load_example a1 b1, of "''Tea ''" "''''" "''x''"]
      add_expense_appends [OF load_absent a2 b2, of "''Rent''" "''Home''" "''''"]
      load_example load_absent p f1
    by (simp add: Let_def d1 d2 t st sv1 sv2)
qed

text \<open>
  C7. \<open>add_expense\<close> is rejected for its date exactly when the stripped date text is not
  blank and \<^verbatim>\<open>strptime\<close> fails on each of the three formats, which \<open>parse_date\<close> tries in
  the order \<^verbatim>\<open>%Y-%m-%d\<close>, \<^verbatim>\<open>%d-%m-%Y\<close>, \<^verbatim>\<open>%Y/%m/%d\<close>, the first success giving the date.
  It is rejected for its amount exactly when the date is accepted and \<^verbatim>\<open>float\<close> rejects the
  stripped amount text. Whenever it is rejected the world is returned as it was: no write,
  and the next load gives what it gave before.
\<close>

theorem add_expense_rejects:
  "(fst (add_expense e date_in title_in category_in amount_in note_in w)
       = Returns (InvalidInput InvalidDate)
      \<longleftrightarrow> strip e date_in \<noteq> []
          \<and> strptime e (strip e date_in) ''%Y-%m-%d'' = None
          \<and> strptime e (strip e date_in) ''%d-%m-%Y'' = None
          \<and> strptime e (strip e date_in) ''%Y/%m/%d'' = None)
   \<and> parse_date e t =
       (case strptime e t ''%Y-%m-%d'' of
          Some d \<Rightarrow> Inr d
        | None \<Rightarrow>
            (case strptime e t ''%d-%m-%Y'' of
               Some d \<Rightarrow> Inr d
             | None \<Rightarrow>
                 (case strptime e t ''%Y/%m/%d'' of
                    Some d \<Rightarrow> Inr d
                  | None \<Rightarrow> Inl InvalidDate)))
   \<and> (fst (add_expense e date_in title_in category_in amount_in note_in w)
       = Returns (InvalidInput InvalidAmount)
      \<longleftrightarrow> fst (add_expense e date_in title_in category_in amount_in note_in w)
            \<noteq> Returns (InvalidInput InvalidDate)
          \<and> py_float e (strip e amount_in) = None)
   \<and> (py_float e (strip e amount_in) = None \<longrightarrow>
        (\<exists>err. fst (add_expense e date_in title_in category_in amount_in note_in w)
                 = Returns (InvalidInput err)))
   \<and> (\<forall>err. fst (add_expense e date_in title_in category_in amount_in note_in w)
              = Returns (InvalidInput err)
        \<longrightarrow> snd (add_expense e date_in title_in category_in amount_in note_in w) = w
            \<and> writes (snd (add_expense e date_in title_in category_in amount_in note_in w)) = writes w
            \<and> load_data e (snd (add_expense e date_in title_in category_in amount_in note_in w))
                = load_data e w)"
proof -
  let ?r = "add_expense e date_in title_in category_in amount_in note_in w"
  let ?bad = "strip e date_in \<noteq> []
          \<and> strptime e (strip e date_in) ''%Y-%m-%d'' = None
          \<and> strptime e (strip e date_in) ''%d-%m-%Y'' = None
          \<and> strptime e (strip e date_in) ''%Y/%m/%d'' = None"
  have all: "(fst ?r = Returns (InvalidInput InvalidDate) \<longleftrightarrow> ?bad)
     \<and> (fst ?r = Returns (InvalidInput InvalidAmount) \<longleftrightarrow>
          \<not> ?bad \<and> py_float e (strip e amount_in) = None)
     \<and> (\<forall>err. fst ?r = Returns (InvalidInput err) \<longrightarrow> snd ?r = w)"
  proof (cases ?bad)
    case True
    then have "parse_date e (strip e date_in) = Inl InvalidDate" by (simp add: parse_date_Inl)
    with True have "?r = (Returns (InvalidInput InvalidDate), w)"
      by (simp add: add_expense_bad_date)
    with True show ?thesis by simp
  next
    case False
    then have ok: "strip e date_in = []
        \<or> (\<exists>d. parse_date e (strip e date_in) = Inr d)"
      by (cases "parse_date e (strip e date_in)") (auto simp: parse_date_Inl)
    then obtain d where ok': "strip e date_in = [] \<or> parse_date e (strip e date_in) = Inr d"
      by blast
    show ?thesis
    proof (cases "py_float e (strip e amount_in)")
      case None
      with ok' have "?r = (Returns (InvalidInput InvalidAmount), w)"
        by (rule add_expense_bad_amount)
      with False None show ?thesis by simp
    next
      case (Some a)
      have "fst ?r \<noteq> Returns (InvalidInput err)" for err
        using ok' Some by (rule add_expense_accepted)
      with False Some show ?thesis by simp
    qed
  qed
  have d: "py_float e (strip e amount_in) = None \<longrightarrow> (\<exists>err. fst ?r = Returns (InvalidInput err))"
    using all by (cases ?bad) auto
  have w: "\<forall>err. fst ?r = Returns (InvalidInput err) \<longrightarrow>
       snd ?r = w \<and> writes (snd ?r) = writes w \<and> load_data e (snd ?r) = load_data e w"
    using all by simp
  have c: "fst ?r = Returns (InvalidInput InvalidAmount) \<longleftrightarrow>
       fst ?r \<noteq> Returns (InvalidInput InvalidDate) \<and> py_float e (strip e amount_in) = None"
    using all by blast
  from all c d w parse_date_unfold [of e t] show ?thesis by (intro conjI) blast+
qed

theorem add_expense_rejects_witness:
  "strip ref_env ''13/45/9999'' = ''13/45/9999''
   \<and> strptime ref_env ''13/45/9999'' ''%Y-%m-%d'' = None
   \<and> strptime ref_env ''13/45/9999'' ''%d-%m-%Y'' = None
   \<and> strptime ref_env ''13/45/9999'' ''%Y/%m/%d'' = None
   \<and> add_expense ref_env ''13/45/9999'' ''Tea'' ''Food'' ''3'' '''' example_world
       = (Returns (InvalidInput InvalidDate), example_world)
   \<and> parse_date ref_env ''2024/02/15'' = Inr \<lparr>year = 2024, month = 2, day = 15\<rparr>
   \<and> py_float ref_env (strip ref_env ''abc'') = None
   \<and> add_expense ref_env ''2024/02/15'' ''Tea'' ''Food'' ''abc'' '''' example_world
       = (Returns (InvalidInput InvalidAmount), example_world)"
proof -
  have s: "strip ref_env ''13/45/9999'' = ''13/45/9999''"
    "strip ref_env ''2024/02/15'' = ''2024/02/15''"
    by (simp_all add: ref_env_def ref_strip_def ref_isspace_def)
  have n: "strptime ref_env ''13/45/9999'' ''%Y-%m-%d'' = None"
    "strptime ref_env ''13/45/9999'' ''%d-%m-%Y'' = None"
    "strptime ref_env ''13/45/9999'' ''%Y/%m/%d'' = None"
    by (simp_all add: ref_env_def mk_date_def nat_of_string_def digit_of_def)
  have g: "strptime ref_env ''2024/02/15'' ''%Y-%m-%d'' = None"
    "strptime ref_env ''2024/02/15'' ''%d-%m-%Y'' = None"
    "strptime ref_env ''2024/02/15'' ''%Y/%m/%d'' = Some \<lparr>year = 2024, month = 2, day = 15\<rparr>"
    by (simp_all add: ref_env_def mk_date_def nat_of_string_def digit_of_def days_in_month_def
        leap_year_def)
  have fl: "py_float ref_env (strip ref_env ''abc'') = None"
    by (simp add: ref_env_def ref_strip_def ref_isspace_def ref_float_def ref_int_def
        nat_of_string_def digit_of_def)
  let ?r1 = "add_expense ref_env ''13/45/9999'' ''Tea'' ''Food'' ''3'' '''' example_world"
  let ?r2 = "add_expense ref_env ''2024/02/15'' ''Tea'' ''Food'' ''abc'' '''' example_world"
  note t1 = add_expense_rejects [of ref_env "''13/45/9999''" "''Tea''" "''Food''" "''3''" "''''"
      example_world "''2024/02/15''"]
  note t2 = add_expense_rejects [of ref_env "''2024/02/15''" "''Tea''" "''Food''" "''abc''" "''''"
      example_world "''2024/02/15''"]
  have p: "parse_date ref_env ''2024/02/15'' = Inr \<lparr>year = 2024, month = 2, day = 15\<rparr>"
    using t1 by (simp add: g)
  have f1: "fst ?r1 = Returns (InvalidInput InvalidDate)" using t1 by (simp add: s n)
  then have r1: "?r1 = (Returns (InvalidInput InvalidDate), example_world)"
    using t1 by (metis prod.collapse)
  have "fst ?r2 \<noteq> Returns (InvalidInput InvalidDate)" using t2 by (simp add: s g)
  then have f2: "fst ?r2 = Returns (InvalidInput InvalidAmount)" using t2 fl by blast
  then have r2: "?r2 = (Returns (InvalidInput InvalidAmount), example_world)"
    using t2 by (metis prod.collapse)
  from s n r1 p fl r2 show ?thesis by simp
qed

section \<open>Listing the expenses\<close>









section \<open>The monthly summary\<close>

lemma monthly_summary_unfold:
  assumes y: "int_or_default e (strip e y_in) (year (today e)) = Inr y"
    and m: "int_or_default e (strip e m_in) (month (today e)) = Inr m"
    and ld: "load_data e w = Inr (Records data)"
  shows "monthly_summary e y_in m_in w =
     (case filter_month e y m data of
        Inl err \<Rightarrow> (Raised err, w)
      | Inr filtered \<Rightarrow>
          if filtered = [] then (Returns NoRecords, w)
          else (case percent_lines e (py_sum e (map amount filtered)) (by_category e filtered) of
                  Inl err \<Rightarrow> (Raised err, w)
                | Inr ls \<Rightarrow> (Returns (Summary y m ls (py_sum e (map amount filtered))), w)))"
  using y m ld by (simp add: monthly_summary_def Let_def split: sum.splits)

lemma monthly_summary_valid:
  assumes ld: "load_data e w = Inr (Records data)"
    and valid: "\<forall>r\<in>set data. fromisoformat e (date r) \<noteq> None"
    and y: "int_or_default e (strip e y_in) (year (today e)) = Inr y"
    and m: "int_or_default e (strip e m_in) (month (today e)) = Inr m"
  shows "monthly_summary e y_in m_in w =
     (let filtered = filter (in_month e y m) data;
          tot = py_sum e (map amount filtered)
      in if filtered = [] then (Returns NoRecords, w)
         else if num_is_zero e tot then (Raised ZeroDivisionError, w)
         else (Returns (Summary y m
                 (map (\<lambda>c. (c, subtotal e filtered c,
                              num_mul e (num_div e (subtotal e filtered c) tot) (num_int e 100)))
                    (first_seen (map category filtered)))
                 tot), w))"
proof -
  let ?f = "filter (in_month e y m) data"
  have fm: "filter_month e y m data = Inr ?f"
    using valid by (rule filter_month_valid)
  show ?thesis
  proof (cases "?f = []")
    case True
    then show ?thesis by (simp add: monthly_summary_unfold [OF y m ld] fm Let_def)
  next
    case ne: False
    show ?thesis
    proof (cases "num_is_zero e (py_sum e (map amount ?f))")
      case True
      then show ?thesis
        using ne by (simp add: monthly_summary_unfold [OF y m ld] fm percent_lines_zero
            by_category_nonempty Let_def)
    next
      case False
      then show ?thesis
        using ne by (simp add: monthly_summary_unfold [OF y m ld] fm percent_lines_nonzero
            by_category_eq comp_def Let_def)
    qed
  qed
qed




lemma int_or_default_bad:
  "s \<noteq> [] \<Longrightarrow> py_int e s = None \<Longrightarrow> int_or_default e s d = Inl (ValueError InvalidInt)"
  by (simp add: int_or_default_def)

lemma int_or_default_Inl:
  "int_or_default e s d = Inl err \<Longrightarrow> err = ValueError InvalidInt"
  by (simp add: int_or_default_def split: if_splits option.splits)

lemma monthly_summary_year_error:
  "int_or_default e (strip e y_in) (year (today e)) = Inl err \<Longrightarrow>
   monthly_summary e y_in m_in w = (Raised err, w)"
  by (simp add: monthly_summary_def Let_def)

lemma monthly_summary_month_error:
  "int_or_default e (strip e y_in) (year (today e)) = Inr y \<Longrightarrow>
   int_or_default e (strip e m_in) (month (today e)) = Inl err \<Longrightarrow>
   monthly_summary e y_in m_in w = (Raised err, w)"
  by (simp add: monthly_summary_def Let_def)

lemma monthly_summary_number_error:
  assumes "int_or_default e (strip e y_in) (year (today e)) = Inl err
         \<or> int_or_default e (strip e m_in) (month (today e)) = Inl err'"
  shows "monthly_summary e y_in m_in w = (Raised (ValueError InvalidInt), w)"
proof (cases "int_or_default e (strip e y_in) (year (today e))")
  case (Inl a)
  then show ?thesis
    using int_or_default_Inl [OF Inl] by (simp add: monthly_summary_year_error)
next
  case y: (Inr y)
  with assms have m: "int_or_default e (strip e m_in) (month (today e)) = Inl err'" by simp
  show ?thesis
    using int_or_default_Inl [OF m] monthly_summary_month_error [OF y m] by simp
qed

text \<open>
  C8. When the store holds a record array with a record whose date \<open>fromisoformat\<close>
  rejects, \<open>monthly_summary\<close> ends with a \<^verbatim>\<open>ValueError\<close> whatever the year and month asked
  for (with year and month inputs that are read without error, it is the error of the
  date), while \<open>load_data\<close> returned that collection without complaint.
\<close>

theorem monthly_summary_strict_dates:
  assumes "load_data e w = Inr (Records data)"
    and "\<exists>r\<in>set data. fromisoformat e (date r) = None"
  shows "(\<exists>err. monthly_summary e y_in m_in w = (Raised (ValueError err), w))
    \<and> (\<forall>y m. int_or_default e (strip e y_in) (year (today e)) = Inr y
           \<and> int_or_default e (strip e m_in) (month (today e)) = Inr m
         \<longrightarrow> monthly_summary e y_in m_in w = (Raised (ValueError InvalidIso), w))"
proof -
  have iso: "monthly_summary e y_in m_in w = (Raised (ValueError InvalidIso), w)"
    if y: "int_or_default e (strip e y_in) (year (today e)) = Inr y"
      and m: "int_or_default e (strip e m_in) (month (today e)) = Inr m" for y m
    using filter_month_invalid [OF assms(2), of y m]
    by (simp add: monthly_summary_unfold [OF y m assms(1)])
  have "\<exists>err. monthly_summary e y_in m_in w = (Raised (ValueError err), w)"
  proof (cases "int_or_default e (strip e y_in) (year (today e))")
    case (Inl err)
    then show ?thesis using monthly_summary_number_error [of e y_in err] by blast
  next
    case y: (Inr y)
    show ?thesis
    proof (cases "int_or_default e (strip e m_in) (month (today e))")
      case (Inl err)
      then show ?thesis using monthly_summary_number_error [of e y_in _ m_in err] by blast
    next
      case (Inr m)
      with y iso show ?thesis by blast
    qed
  qed
  with iso show ?thesis by blast
qed

theorem monthly_summary_strict_dates_witness:
  "load_data ref_env bad_date_world
     = Inr (Records [rec1, \<lparr>id' = 5, date = ''05/01/2024'', title = ''Taxi'',
                             category = ''Transport'', amount = 7, note' = ''''\<rparr>])
   \<and> fromisoformat ref_env ''05/01/2024'' = None
   \<and> int_or_default ref_env (strip ref_env ''1999'') (year (today ref_env)) = Inr 1999
   \<and> int_or_default ref_env (strip ref_env ''12'') (month (today ref_env)) = Inr 12
   \<and> monthly_summary ref_env ''1999'' ''12'' bad_date_world
       = (Raised (ValueError InvalidIso), bad_date_world)
   \<and> monthly_summary ref_env '''' '''' bad_date_world
       = (Raised (ValueError InvalidIso), bad_date_world)"
proof -
  let ?b = "\<lparr>id' = 5, date = ''05/01/2024'', title = ''Taxi'', category = ''Transport'',
              amount = 7 :: rat, note' = ''''\<rparr>"
  have l: "load_data ref_env bad_date_world = Inr (Records [rec1, ?b])"
    by (simp add: load_data_def ref_env_def ref_json_load_def bad_date_world_def)
  have i: "fromisoformat ref_env ''05/01/2024'' = None"
    by (simp add: ref_simps)
  then have h: "\<exists>r\<in>set [rec1, ?b]. fromisoformat ref_env (date r) = None" by simp
  have n: "int_or_default ref_env (strip ref_env ''1999'') (year (today ref_env)) = Inr 1999"
    "int_or_default ref_env (strip ref_env ''12'') (month (today ref_env)) = Inr 12"
    "int_or_default ref_env (strip ref_env '''') (year (today ref_env)) = Inr 2024"
    "int_or_default ref_env (strip ref_env '''') (month (today ref_env)) = Inr 3"
    by (simp_all add: ref_simps)
  show ?thesis
    using monthly_summary_strict_dates [OF l h, of "''1999''" "''12''"]
      monthly_summary_strict_dates [OF l h, of "''''" "''''"] l i n
    by simp
qed

text \<open>
  C9. When the records of the month are not empty and their total is zero, the percentage
  of the first category divides by zero: the operation ends with \<^verbatim>\<open>ZeroDivisionError\<close>.
  The witness below is such an input, a single record of amount 0.
\<close>

theorem monthly_summary_zero_total:
  assumes "load_data e w = Inr (Records data)"
    and "\<forall>r\<in>set data. fromisoformat e (date r) \<noteq> None"
    and "int_or_default e (strip e y_in) (year (today e)) = Inr y"
    and "int_or_default e (strip e m_in) (month (today e)) = Inr m"
    and "filter (in_month e y m) data \<noteq> []"
    and "num_is_zero e (py_sum e (map amount (filter (in_month e y m) data)))"
  shows "monthly_summary e y_in m_in w = (Raised ZeroDivisionError, w)"
  using assms(5,6) by (simp add: monthly_summary_valid [OF assms(1-4)] Let_def)

theorem monthly_summary_zero_total_witness:
  "load_data ref_env zero_world
     = Inr (Records [\<lparr>id' = 4, date = ''2024-03-02'', title = ''Refund'', category = ''Misc'',
                      amount = 0, note' = ''''\<rparr>])
   \<and> fromisoformat ref_env ''2024-03-02'' = Some \<lparr>year = 2024, month = 3, day = 2\<rparr>
   \<and> int_or_default ref_env (strip ref_env '''') (year (today ref_env)) = Inr 2024
   \<and> int_or_default ref_env (strip ref_env ''3'') (month (today ref_env)) = Inr 3
   \<and> filter (in_month ref_env 2024 3)
        [\<lparr>id' = 4, date = ''2024-03-02'', title = ''Refund'', category = ''Misc'',
          amount = 0, note' = ''''\<rparr>]
      = [\<lparr>id' = 4, date = ''2024-03-02'', title = ''Refund'', category = ''Misc'',
          amount = 0, note' = ''''\<rparr>]
   \<and> num_is_zero ref_env (py_sum ref_env [0])
   \<and> monthly_summary ref_env '''' ''3'' zero_world = (Raised ZeroDivisionError, zero_world)"
proof -
  let ?z = "\<lparr>id' = 4, date = ''2024-03-02'', title = ''Refund'', category = ''Misc'',
              amount = 0 :: rat, note' = ''''\<rparr>"
  have lz: "load_data ref_env zero_world = Inr (Records [?z])"
    by (simp add: load_data_def ref_env_def ref_json_load_def zero_world_def)
  have iz: "fromisoformat ref_env ''2024-03-02'' = Some \<lparr>year = 2024, month = 3, day = 2\<rparr>"
    by (simp add: ref_simps)
  then have vz: "\<forall>r\<in>set [?z]. fromisoformat ref_env (date r) \<noteq> None" by simp
  have n: "int_or_default ref_env (strip ref_env '''') (year (today ref_env)) = Inr 2024"
    "int_or_default ref_env (strip ref_env ''3'') (month (today ref_env)) = Inr 3"
    by (simp_all add: ref_simps)
  have f: "filter (in_month ref_env 2024 3) [?z] = [?z]"
    using iz by (simp add: in_month_def)
  have z: "num_is_zero ref_env (py_sum ref_env [0])"
    by (simp add: ref_env_def)
  have "monthly_summary ref_env '''' ''3'' zero_world = (Raised ZeroDivisionError, zero_world)"
    using monthly_summary_zero_total [OF lz vz n] f z by simp
  with lz iz n f z show ?thesis by simp
qed

text \<open>
  C10. A year or month text that is not blank and that \<^verbatim>\<open>int\<close> rejects makes
  \<open>monthly_summary\<close> end with the \<^verbatim>\<open>ValueError\<close> of \<^verbatim>\<open>int\<close>, raised to the caller (the
  result is an exception, not a report), whatever the store holds, and the world is
  unchanged.
\<close>

theorem monthly_summary_bad_number:
  assumes "strip e y_in \<noteq> [] \<and> py_int e (strip e y_in) = None
         \<or> strip e m_in \<noteq> [] \<and> py_int e (strip e m_in) = None"
  shows "monthly_summary e y_in m_in w = (Raised (ValueError InvalidInt), w)"
proof -
  from assms have "int_or_default e (strip e y_in) (year (today e)) = Inl (ValueError InvalidInt)
         \<or> int_or_default e (strip e m_in) (month (today e)) = Inl (ValueError InvalidInt)"
    by (auto simp: int_or_default_bad)
  then show ?thesis by (rule monthly_summary_number_error)
qed

theorem monthly_summary_bad_number_witness:
  "strip ref_env ''20x4'' \<noteq> [] \<and> py_int ref_env (strip ref_env ''20x4'') = None
   \<and> monthly_summary ref_env ''20x4'' ''1'' bad_date_world
       = (Raised (ValueError InvalidInt), bad_date_world)
   \<and> strip ref_env ''Jan'' \<noteq> [] \<and> py_int ref_env (strip ref_env ''Jan'') = None
   \<and> monthly_summary ref_env ''2024'' ''Jan'' example_world
       = (Raised (ValueError InvalidInt), example_world)"
  using monthly_summary_bad_number [of ref_env "''20x4''" "''1''" bad_date_world]
    monthly_summary_bad_number [of ref_env "''2024''" "''Jan''" example_world]
  by (simp add: ref_simps)

section \<open>Deleting an expense\<close>

lemma filter_same_length:
  "length (filter P xs) = length xs \<longleftrightarrow> (\<forall>x\<in>set xs. P x)"
proof
  assume "length (filter P xs) = length xs"
  then show "\<forall>x\<in>set xs. P x"
    using length_filter_less [of _ xs P] by fastforce
next
  assume "\<forall>x\<in>set xs. P x"
  then have "filter P xs = xs" by (simp add: filter_id_conv)
  then show "length (filter P xs) = length xs" by simp
qed

lemma delete_cases:
  assumes "py_int e (strip e id_in) = Some n"
    and "load_data e w = Inr (Records data)"
  shows "delete e id_in w =
     (if \<forall>r\<in>set data. id' r \<noteq> n then (Returns IDNotFound, w)
      else (Returns Deleted, save_data e (filter (\<lambda>r. id' r \<noteq> n) data) w))"
  using assms by (simp add: delete_def Let_def filter_same_length)

text \<open>
  C2. For an integer id input, on a store that holds a record array, \<open>delete\<close> removes
  every record with that id and saves the remaining records; when no record has the id it
  reports not found and returns the world as it was, so the file and the count of writes
  are unchanged. When exactly one record has the id, the remaining collection is one
  record shorter.
\<close>

theorem delete_removes:
  assumes "py_int e (strip e id_in) = Some n"
    and "load_data e w = Inr (Records data)"
  shows
    "(let kept = filter (\<lambda>r. id' r \<noteq> n) data; res = delete e id_in w
      in ((\<forall>r\<in>set data. id' r \<noteq> n) \<longrightarrow> res = (Returns IDNotFound, w))
       \<and> ((\<exists>r\<in>set data. id' r = n) \<longrightarrow>
             res = (Returns Deleted, save_data e kept w)
             \<and> db_file (snd res) = Some (Content (json_dump e kept))
             \<and> writes (snd res) = Suc (writes w)
             \<and> (json_load e (json_dump e kept) = Parsed (Records kept) \<longrightarrow>
                  load_data e (snd res) = Inr (Records kept)))
       \<and> (length (filter (\<lambda>r. id' r = n) data) = 1 \<longrightarrow> Suc (length kept) = length data)
       \<and> (\<forall>r\<in>set kept. id' r \<noteq> n))"
proof -
  let ?kept = "filter (\<lambda>r. id' r \<noteq> n) data"
  have a: "(\<forall>r\<in>set data. id' r \<noteq> n) \<longrightarrow> delete e id_in w = (Returns IDNotFound, w)"
    by (simp add: delete_cases [OF assms])
  have b: "(\<exists>r\<in>set data. id' r = n) \<longrightarrow>
             delete e id_in w = (Returns Deleted, save_data e ?kept w)
             \<and> db_file (snd (delete e id_in w)) = Some (Content (json_dump e ?kept))
             \<and> writes (snd (delete e id_in w)) = Suc (writes w)
             \<and> (json_load e (json_dump e ?kept) = Parsed (Records ?kept) \<longrightarrow>
                  load_data e (snd (delete e id_in w)) = Inr (Records ?kept))"
    by (auto simp: delete_cases [OF assms] save_data_def load_data_def)
  have "length (filter (\<lambda>r. id' r = n) data) + length ?kept = length data"
    using sum_length_filter_compl [of "\<lambda>r. id' r = n" data] by simp
  then have c: "length (filter (\<lambda>r. id' r = n) data) = 1 \<longrightarrow> Suc (length ?kept) = length data"
    by simp
  have d: "\<forall>r\<in>set ?kept. id' r \<noteq> n" by simp
  from a b c d show ?thesis by (simp only: Let_def)
qed

theorem delete_removes_witness:
  "py_int ref_env (strip ref_env ''2'') = Some 2
   \<and> load_data ref_env example_world = Inr (Records [rec1, rec2, rec3])
   \<and> delete ref_env ''2'' example_world
       = (Returns Deleted, \<lparr>db_file = Some (Content (JsonArray [rec1, rec3])), writes = 1\<rparr>)
   \<and> py_int ref_env (strip ref_env '' 7'') = Some 7
   \<and> delete ref_env '' 7'' example_world = (Returns IDNotFound, example_world)"
proof -
  have i: "py_int ref_env (strip ref_env ''2'') = Some 2"
    "py_int ref_env (strip ref_env '' 7'') = Some 7"
    by (simp_all add: ref_env_def ref_strip_def ref_isspace_def ref_int_def nat_of_string_def
        digit_of_def)
  have ids: "id' rec1 = 1" "id' rec2 = 2" "id' rec3 = 3"
    by (simp_all add: rec1_def rec2_def rec3_def)
  have sv: "save_data ref_env xs example_world
              = \<lparr>db_file = Some (Content (JsonArray xs)), writes = 1\<rparr>" for xs
    by (simp add: save_data_def ref_env_def example_world_def)
  show ?thesis
    using delete_removes [OF i(1) load_example] delete_removes [OF i(2) load_example] i
      load_example
    by (simp add: Let_def ids sv)
qed

end
